theory Spec2Isabelle
  imports Complex_Main
begin

section \<open>Values of the JavaScript program\<close>

text \<open>
  The server (\<^verbatim>\<open>src/server.js\<close>) reads the fields of a parsed JSON request body and
  tests them with \<^verbatim>\<open>!x\<close>. A field is any JSON value, or \<^verbatim>\<open>undefined\<close> when the
  body has no such property. Numbers are modelled at their integer values (amounts are
  minor currency units, creation times are unix seconds); \<^verbatim>\<open>NaN\<close> is not JSON.
\<close>

datatype json =
    JUndefined
  | JNull
  | JBool bool
  | JNum int
  | JStr string
  | JArr "json list"
  | JObj "(string \<times> json) list"

text \<open>JavaScript's ToBoolean: \<^verbatim>\<open>!x\<close> is \<open>\<not> truthy x\<close>.\<close>

fun truthy :: "json \<Rightarrow> bool" where
  "truthy JUndefined = False"
| "truthy JNull = False"
| "truthy (JBool b) = b"
| "truthy (JNum n) = (n \<noteq> 0)"
| "truthy (JStr s) = (s \<noteq> [])"
| "truthy (JArr xs) = True"
| "truthy (JObj kvs) = True"

text \<open>
  \<^verbatim>\<open>req.body\<close> after \<^verbatim>\<open>express.json()\<close>: the property table of the parsed object.
  Reading a property that is not there gives \<^verbatim>\<open>undefined\<close>. A handler that takes an
  \<open>obj\<close> is modelled for a request whose body was parsed; \<open>create_payment_intent\<close>
  takes an \<open>obj option\<close> and so also the request that leaves \<^verbatim>\<open>req.body\<close> undefined.
\<close>

type_synonym obj = "(string \<times> json) list"

definition lookup :: "obj \<Rightarrow> string \<Rightarrow> json" where
  "lookup body k = (case map_of body k of None \<Rightarrow> JUndefined | Some v \<Rightarrow> v)"

text \<open>A destructuring default \<^verbatim>\<open>{ x = d }\<close> applies when the property is \<^verbatim>\<open>undefined\<close> only.\<close>

definition dflt :: "json \<Rightarrow> json \<Rightarrow> json" where
  "dflt v d = (if v = JUndefined then d else v)"

text \<open>A string that may be \<^verbatim>\<open>null\<close>: \<^verbatim>\<open>!s\<close> holds for \<^verbatim>\<open>null\<close> and for the empty string.\<close>

fun truthy_str :: "string option \<Rightarrow> bool" where
  "truthy_str None = False"
| "truthy_str (Some s) = (s \<noteq> [])"

text \<open>
  Decimal rendering of an integer, as a template literal \<^verbatim>\<open>`${n}`\<close> does for the
  integral millisecond count of \<^verbatim>\<open>Date.now()\<close>.
\<close>

fun digits :: "nat \<Rightarrow> string" where
  "digits n = (if n < 10 then [''0123456789'' ! n]
               else digits (n div 10) @ [''0123456789'' ! (n mod 10)])"

declare digits.simps [simp del]

definition show_int :: "int \<Rightarrow> string" where
  "show_int i = (if i < 0 then CHR ''-'' # digits (nat (- i)) else digits (nat i))"

section \<open>The payment platform\<close>

text \<open>
  An exception caught by a handler, which reads its \<^verbatim>\<open>message\<close>: an error thrown by
  an SDK call, or a \<^verbatim>\<open>TypeError\<close> thrown by the handler's own code.
\<close>

datatype exn = StripeError (message: string) | TypeError (message: string)

text \<open>
  A field of a platform object that holds either the id of another object or, when the
  call asked for expansion, the object itself.
\<close>

datatype 'a expandable = Ref string | Expanded 'a

record payment_intent =
  pi_id :: string
  pi_client_secret :: "string option"
  pi_transfer_group :: "string option"

record customer =
  cus_id :: string

record charge =
  ch_id :: string
  ch_amount :: int
  ch_currency :: string
  ch_created :: int
  ch_payment_intent :: "payment_intent expandable option"
  ch_description :: "string option"
  ch_receipt_url :: "string option"
  ch_customer :: "customer expandable option"

record refund =
  re_id :: string
  re_status :: "string option"
  re_amount :: int
  re_currency :: string
  re_created :: int
  re_payment_intent :: "payment_intent expandable option"
  re_charge :: "charge expandable option"

record reversal =
  rv_id :: string
  rv_amount :: int
  rv_created :: int

record transfer =
  tr_id :: string
  tr_amount :: int
  tr_currency :: string
  tr_created :: int
  tr_source_transaction :: "charge expandable option"
  tr_reversals :: "reversal list option"

text \<open>The argument of \<^verbatim>\<open>stripe.paymentIntents.create\<close> (lines 121-137).\<close>

record pi_params =
  pp_amount :: json
  pp_currency :: json
  pp_customer :: json
  pp_automatic_payment_methods_enabled :: bool
  pp_transfer_data_destination :: json
  pp_transfer_group :: string
  pp_application_fee_amount :: json
  pp_description :: json

text \<open>The two ways the server queries \<^verbatim>\<open>stripe.transfers.list\<close> (lines 182 and 356).\<close>

datatype transfers_query =
    ByGroup string
  | ByDestination json nat "string list"

text \<open>Every call the modelled handlers make to the platform, with its arguments.\<close>

datatype call =
    PaymentIntentsCreate pi_params
  | RefundsCreate json
  | PaymentIntentsRetrieve json
  | TransfersList transfers_query
  | TransfersCreateReversal string int
  | ChargesList json nat
  | RefundsList nat "string list"
  | CustomersDel json
  | AccountsDel json

text \<open>
  The platform is outside the program. It is a parameter of every handler: for each SDK
  method a function that gives the result of the call (an exception or the object), from
  the calls made so far and the arguments. The handlers' state is the log of calls, in
  the order they were made.
\<close>

record stripe =
  paymentIntents_create :: "call list \<Rightarrow> pi_params \<Rightarrow> exn + payment_intent"
  refunds_create :: "call list \<Rightarrow> json \<Rightarrow> exn + refund"
  paymentIntents_retrieve :: "call list \<Rightarrow> json \<Rightarrow> exn + payment_intent"
  transfers_list :: "call list \<Rightarrow> transfers_query \<Rightarrow> exn + transfer list"
  transfers_createReversal :: "call list \<Rightarrow> string \<Rightarrow> int \<Rightarrow> exn + reversal"
  charges_list :: "call list \<Rightarrow> json \<Rightarrow> nat \<Rightarrow> exn + charge list"
  refunds_list :: "call list \<Rightarrow> nat \<Rightarrow> string list \<Rightarrow> exn + refund list"
  customers_del :: "call list \<Rightarrow> json \<Rightarrow> exn + unit"
  accounts_del :: "call list \<Rightarrow> json \<Rightarrow> exn + unit"

section \<open>HTTP responses\<close>

text \<open>
  \<^verbatim>\<open>res.status(n).json(b)\<close>; \<^verbatim>\<open>res.json(b)\<close> answers 200. An error body is
  \<^verbatim>\<open>{ error: msg }\<close>.
\<close>

datatype 'a payload = ErrorBody string | Body 'a

record 'a response =
  status :: nat
  payload :: "'a payload"

section \<open>POST /create-payment-intent (lines 103-149)\<close>

record pi_reply =
  clientSecret :: "string option"
  paymentIntentId :: string
  transferGroup :: string

text \<open>
  \<open>req_body\<close> is \<^verbatim>\<open>req.body\<close>: the parsed object, or \<open>None\<close> when it is
  \<^verbatim>\<open>undefined\<close>, which is what a request with no parsed JSON body leaves there unless
  the body parser in use puts an empty object in its place. Destructuring
  \<^verbatim>\<open>undefined\<close> at line 105 throws a \<^verbatim>\<open>TypeError\<close> inside the \<^verbatim>\<open>try\<close>, and the
  \<^verbatim>\<open>catch\<close> of lines 145-148 answers 500 with its message (the wording is the
  engine's; V8's is written here). \<open>now\<close> is the reading of \<^verbatim>\<open>Date.now()\<close> at line
  119.
\<close>

definition create_payment_intent ::
  "stripe \<Rightarrow> int \<Rightarrow> obj option \<Rightarrow> call list \<Rightarrow> pi_reply response \<times> call list"
  where
  "create_payment_intent S now req_body h =
    (case req_body of
       None \<Rightarrow>
         (\<lparr>status = 500,
           payload = ErrorBody (message (TypeError
             ''Cannot destructure property 'amount' of 'req.body' as it is undefined.''))\<rparr>,
          h)
     | Some body \<Rightarrow>
             (let amount = lookup body ''amount'';
                  customerId = lookup body ''customerId'';
                  ownerConnectAccountId = lookup body ''ownerConnectAccountId'';
                  description = dflt (lookup body ''description'') (JStr ''Rentify booking'');
                  currency = dflt (lookup body ''currency'') (JStr ''myr'');
                  platformFee = dflt (lookup body ''platformFee'') (JNum 0)
              in if \<not> truthy amount \<or> \<not> truthy customerId \<or> \<not> truthy ownerConnectAccountId
                 then (\<lparr>status = 400, payload = ErrorBody ''Missing fields''\<rparr>, h)
                 else
                   let transferGroup = ''booking_'' @ show_int now;
                       params = \<lparr>pp_amount = amount,
                                 pp_currency = currency,
                                 pp_customer = customerId,
                                 pp_automatic_payment_methods_enabled = True,
                                 pp_transfer_data_destination = ownerConnectAccountId,
                                 pp_transfer_group = transferGroup,
                                 pp_application_fee_amount = platformFee,
                                 pp_description = description\<rparr>
                   in (case paymentIntents_create S h params of
                         Inl err \<Rightarrow>
                           (\<lparr>status = 500, payload = ErrorBody (message err)\<rparr>,
                            h @ [PaymentIntentsCreate params])
                       | Inr paymentIntent \<Rightarrow>
                           (\<lparr>status = 200,
                             payload = Body \<lparr>clientSecret = pi_client_secret paymentIntent,
                                             paymentIntentId = pi_id paymentIntent,
                                             transferGroup = transferGroup\<rparr>\<rparr>,
                            h @ [PaymentIntentsCreate params]))))"

section \<open>POST /refund (lines 154-207)\<close>

text \<open>
  The success body. \<open>rr_reversal\<close> is \<open>None\<close> when the body has no
  \<^verbatim>\<open>reversal\<close> key (the branch of line 173) and \<open>Some None\<close> when the key holds
  \<^verbatim>\<open>null\<close>.
\<close>

record refund_reply =
  rr_success :: bool
  refundId :: string
  refundStatus :: "string option"
  transferReversed :: bool
  rr_reversal :: "reversal option option"

text \<open>
  The loop of lines 189-193: \<open>reversal\<close> is the variable of line 186, overwritten by
  every iteration. An exception leaves the loop; the calls made until then stay made.
  \<open>reversal_call t\<close> is the call of line 190 for the transfer \<open>t\<close>.
\<close>

definition reversal_call :: "transfer \<Rightarrow> call" where
  "reversal_call t = TransfersCreateReversal (tr_id t) (tr_amount t)"

fun reverse_each ::
  "stripe \<Rightarrow> transfer list \<Rightarrow> reversal option \<Rightarrow> call list
    \<Rightarrow> (exn + reversal option) \<times> call list" where
  "reverse_each S [] reversal h = (Inr reversal, h)"
| "reverse_each S (t # ts) reversal h =
    (case transfers_createReversal S h (tr_id t) (tr_amount t) of
       Inl err \<Rightarrow> (Inl err, h @ [reversal_call t])
     | Inr r \<Rightarrow> reverse_each S ts (Some r) (h @ [reversal_call t]))"

definition no_group_reply :: "refund \<Rightarrow> refund_reply response" where
  "no_group_reply refund =
    \<lparr>status = 200,
     payload = Body \<lparr>rr_success = True,
                     refundId = re_id refund,
                     refundStatus = re_status refund,
                     transferReversed = False,
                     rr_reversal = None\<rparr>\<rparr>"

text \<open>
  \<^verbatim>\<open>!group\<close> (line 171) holds when \<^verbatim>\<open>pi.transfer_group\<close> is \<^verbatim>\<open>null\<close> or the empty
  string. The source's \<^verbatim>\<open>pi\<close> and \<^verbatim>\<open>group\<close> are \<open>intent\<close> and \<open>grp\<close> here.
\<close>

definition refund_handler ::
  "stripe \<Rightarrow> obj \<Rightarrow> call list \<Rightarrow> refund_reply response \<times> call list" where
  "refund_handler S body h =
    (let paymentIntentId = lookup body ''paymentIntentId''
     in if \<not> truthy paymentIntentId
        then (\<lparr>status = 400, payload = ErrorBody ''Missing paymentIntentId''\<rparr>, h)
        else
          let h1 = h @ [RefundsCreate paymentIntentId]
          in (case refunds_create S h paymentIntentId of
                Inl err \<Rightarrow> (\<lparr>status = 500, payload = ErrorBody (message err)\<rparr>, h1)
              | Inr refund \<Rightarrow>
                  let h2 = h1 @ [PaymentIntentsRetrieve paymentIntentId]
                  in (case paymentIntents_retrieve S h1 paymentIntentId of
                        Inl err \<Rightarrow> (\<lparr>status = 500, payload = ErrorBody (message err)\<rparr>, h2)
                      | Inr intent \<Rightarrow>
                          (case pi_transfer_group intent of
                             None \<Rightarrow> (no_group_reply refund, h2)
                           | Some grp \<Rightarrow>
                               if grp = [] then (no_group_reply refund, h2)
                               else
                                 let h3 = h2 @ [TransfersList (ByGroup grp)]
                                 in (case transfers_list S h2 (ByGroup grp) of
                                       Inl err \<Rightarrow>
                                         (\<lparr>status = 500, payload = ErrorBody (message err)\<rparr>, h3)
                                     | Inr transfers \<Rightarrow>
                                         (case reverse_each S transfers None h3 of
                                            (Inl err, h4) \<Rightarrow>
                                              (\<lparr>status = 500,
                                                payload = ErrorBody (message err)\<rparr>, h4)
                                          | (Inr reversal, h4) \<Rightarrow>
                                              (\<lparr>status = 200,
                                                payload =
                                                  Body \<lparr>rr_success = True,
                                                        refundId = re_id refund,
                                                        refundStatus = re_status refund,
                                                        transferReversed = (reversal \<noteq> None),
                                                        rr_reversal = Some reversal\<rparr>\<rparr>,
                                               h4)))))))"

section \<open>GET /config and the startup check (lines 18-21, 275-277)\<close>

text \<open>\<^verbatim>\<open>process.env\<close>: a variable is a string or is not set.\<close>

type_synonym env = "string \<rightharpoonup> string"

datatype startup = Exit nat | Listening

definition startup_check :: "env \<Rightarrow> startup" where
  "startup_check env =
    (if \<not> truthy_str (env ''STRIPE_SECRET_KEY'') then Exit 1 else Listening)"

text \<open>
  The body \<^verbatim>\<open>{ publishableKey: process.env.STRIPE_PUBLISHABLE_KEY }\<close>; \<open>None\<close> is
  \<^verbatim>\<open>undefined\<close>, which the JSON body leaves out.
\<close>

record config_reply =
  publishableKey :: "string option"

definition get_config :: "env \<Rightarrow> config_reply response" where
  "get_config env =
    \<lparr>status = 200, payload = Body \<lparr>publishableKey = env ''STRIPE_PUBLISHABLE_KEY''\<rparr>\<rparr>"

text \<open>
  The process exits at line 20 before any route exists; only a process that passed the
  check answers GET /config.
\<close>

definition serve_config :: "env \<Rightarrow> config_reply response option" where
  "serve_config env =
    (case startup_check env of Exit n \<Rightarrow> None | Listening \<Rightarrow> Some (get_config env))"

section \<open>DELETE /stripe/delete-accounts (lines 409-457)\<close>

text \<open>\<open>results\<close> of line 417: a key is \<open>None\<close> until the handler sets it.\<close>

record delete_details =
  customerDeleted :: "bool option"
  connectAccountDeleted :: "bool option"

record delete_reply =
  dr_success :: bool
  dr_message :: string
  dr_details :: "delete_details option"

definition delete_accounts ::
  "stripe \<Rightarrow> obj \<Rightarrow> call list \<Rightarrow> delete_reply response \<times> call list" where
  "delete_accounts S body h =
    (let customerId = lookup body ''customerId'';
         connectAccountId = lookup body ''connectAccountId''
     in if \<not> truthy customerId \<and> \<not> truthy connectAccountId
        then (\<lparr>status = 400,
               payload = Body \<lparr>dr_success = False,
                               dr_message = ''No Stripe IDs provided.'',
                               dr_details = None\<rparr>\<rparr>, h)
        else
          let (cd, h1) =
                (if truthy customerId
                 then (case customers_del S h customerId of
                         Inr u \<Rightarrow> (Some True, h @ [CustomersDel customerId])
                       | Inl err \<Rightarrow> (Some False, h @ [CustomersDel customerId]))
                 else (None, h));
              (ad, h2) =
                (if truthy connectAccountId
                 then (case accounts_del S h1 connectAccountId of
                         Inr u \<Rightarrow> (Some True, h1 @ [AccountsDel connectAccountId])
                       | Inl err \<Rightarrow> (Some False, h1 @ [AccountsDel connectAccountId]))
                 else (Some True, h1))
          in (\<lparr>status = 200,
               payload = Body \<lparr>dr_success = True,
                               dr_message = ''Deletion attempted.'',
                               dr_details = Some \<lparr>customerDeleted = cd,
                                                   connectAccountDeleted = ad\<rparr>\<rparr>\<rparr>, h2))"

section \<open>Transaction history (lines 287-406)\<close>

text \<open>
  One entry of \<^verbatim>\<open>transactions\<close>. \<open>tx_amountRm\<close> is \<^verbatim>\<open>amount / 100\<close>, kept as
  the exact quotient.
\<close>

record tx =
  tx_id :: string
  tx_amount :: int
  tx_amountRm :: rat
  tx_currency :: string
  tx_created :: int
  tx_type :: string
  tx_direction :: string
  tx_paymentIntentId :: "payment_intent expandable option"
  tx_description :: string
  tx_receiptUrl :: "string option"

text \<open>\<^verbatim>\<open>s || "d"\<close> and \<^verbatim>\<open>s || null\<close> for a string \<open>s\<close> that may be \<^verbatim>\<open>null\<close>.\<close>

definition or_str :: "string option \<Rightarrow> string \<Rightarrow> string" where
  "or_str s d = (case s of None \<Rightarrow> d | Some v \<Rightarrow> if v = [] then d else v)"

definition or_null :: "string option \<Rightarrow> string option" where
  "or_null s = (case s of None \<Rightarrow> None | Some v \<Rightarrow> if v = [] then None else Some v)"

text \<open>
  \<^verbatim>\<open>Array.prototype.sort(cmp)\<close>: a stable sort; \<open>a\<close> stays before \<open>b\<close> unless
  \<open>cmp a b > 0\<close>. Each element is inserted in front of the sorted rest of the array.
\<close>

fun insert_cmp :: "('a \<Rightarrow> 'a \<Rightarrow> int) \<Rightarrow> 'a \<Rightarrow> 'a list \<Rightarrow> 'a list" where
  "insert_cmp cmp x [] = [x]"
| "insert_cmp cmp x (y # ys) =
    (if cmp x y \<le> 0 then x # y # ys else y # insert_cmp cmp x ys)"

fun js_sort :: "('a \<Rightarrow> 'a \<Rightarrow> int) \<Rightarrow> 'a list \<Rightarrow> 'a list" where
  "js_sort cmp [] = []"
| "js_sort cmp (x # xs) = insert_cmp cmp x (js_sort cmp xs)"

text \<open>The comparator \<^verbatim>\<open>(a, b) => b.created - a.created\<close> of lines 335 and 399.\<close>

definition by_created_desc :: "tx \<Rightarrow> tx \<Rightarrow> int" where
  "by_created_desc a b = tx_created b - tx_created a"

subsection \<open>POST /transactions/renter\<close>

definition payment_tx :: "charge \<Rightarrow> tx" where
  "payment_tx c =
    \<lparr>tx_id = ch_id c,
     tx_amount = ch_amount c,
     tx_amountRm = of_int (ch_amount c) / 100,
     tx_currency = ch_currency c,
     tx_created = ch_created c,
     tx_type = ''payment'',
     tx_direction = ''out'',
     tx_paymentIntentId = ch_payment_intent c,
     tx_description = or_str (ch_description c) ''Payment'',
     tx_receiptUrl = or_null (ch_receipt_url c)\<rparr>"

text \<open>
  \<^verbatim>\<open>x === customerId\<close> for a customer field \<open>x\<close> of the platform and a value of the
  request: two strings are compared by their characters, \<^verbatim>\<open>null\<close> equals
  \<^verbatim>\<open>null\<close> only, and an expanded object never equals a parsed value.
\<close>

fun customer_eq :: "customer expandable option \<Rightarrow> json \<Rightarrow> bool" where
  "customer_eq None v = (v = JNull)"
| "customer_eq (Some (Ref s)) v = (v = JStr s)"
| "customer_eq (Some (Expanded c)) v = False"

text \<open>
  The filter of line 320, \<^verbatim>\<open>r.charge && r.charge.customer === customerId\<close>. An
  unexpanded charge is a string, whose \<^verbatim>\<open>customer\<close> property is \<^verbatim>\<open>undefined\<close>.
\<close>

fun refund_of_customer :: "json \<Rightarrow> refund \<Rightarrow> bool" where
  "refund_of_customer customerId r =
    (case re_charge r of
       None \<Rightarrow> False
     | Some (Ref s) \<Rightarrow> s \<noteq> [] \<and> customerId = JUndefined
     | Some (Expanded c) \<Rightarrow> customer_eq (ch_customer c) customerId)"

text \<open>\<^verbatim>\<open>r.charge?.receipt_url\<close>.\<close>

definition charge_receipt_url :: "charge expandable option \<Rightarrow> string option" where
  "charge_receipt_url ch =
    (case ch of None \<Rightarrow> None | Some (Ref s) \<Rightarrow> None | Some (Expanded c) \<Rightarrow> ch_receipt_url c)"

definition refund_tx :: "refund \<Rightarrow> tx" where
  "refund_tx r =
    \<lparr>tx_id = re_id r,
     tx_amount = re_amount r,
     tx_amountRm = of_int (re_amount r) / 100,
     tx_currency = re_currency r,
     tx_created = re_created r,
     tx_type = ''refund'',
     tx_direction = ''in'',
     tx_paymentIntentId = re_payment_intent r,
     tx_description = ''Refund'',
     tx_receiptUrl = or_null (charge_receipt_url (re_charge r))\<rparr>"

definition transactions_renter ::
  "stripe \<Rightarrow> obj \<Rightarrow> call list \<Rightarrow> tx list response \<times> call list" where
  "transactions_renter S body h =
    (let customerId = lookup body ''customerId''
     in if \<not> truthy customerId
        then (\<lparr>status = 400, payload = ErrorBody ''Missing customerId''\<rparr>, h)
        else
          let h1 = h @ [ChargesList customerId 50]
          in (case charges_list S h customerId 50 of
                Inl err \<Rightarrow> (\<lparr>status = 500, payload = ErrorBody (message err)\<rparr>, h1)
              | Inr charges \<Rightarrow>
                  let payments = map payment_tx charges;
                      h2 = h1 @ [RefundsList 50 [''data.charge'']]
                  in (case refunds_list S h1 50 [''data.charge''] of
                        Inl err \<Rightarrow> (\<lparr>status = 500, payload = ErrorBody (message err)\<rparr>, h2)
                      | Inr refundsList \<Rightarrow>
                          let refunds =
                                map refund_tx (filter (refund_of_customer customerId) refundsList);
                              all = js_sort by_created_desc (payments @ refunds)
                          in (\<lparr>status = 200, payload = Body all\<rparr>, h2))))"

subsection \<open>POST /transactions/owner\<close>

text \<open>\<^verbatim>\<open>charge?.payment_intent?.id ?? null\<close> (line 367).\<close>

definition source_payment_intent :: "charge expandable option \<Rightarrow> string option" where
  "source_payment_intent ch =
    (case ch of
       None \<Rightarrow> None
     | Some (Ref s) \<Rightarrow> None
     | Some (Expanded c) \<Rightarrow>
         (case ch_payment_intent c of
            None \<Rightarrow> None
          | Some (Ref s) \<Rightarrow> None
          | Some (Expanded p) \<Rightarrow> Some (pi_id p)))"

definition payout_tx :: "transfer \<Rightarrow> tx" where
  "payout_tx t =
    \<lparr>tx_id = tr_id t,
     tx_amount = tr_amount t,
     tx_amountRm = of_int (tr_amount t) / 100,
     tx_currency = tr_currency t,
     tx_created = tr_created t,
     tx_type = ''transfer'',
     tx_direction = ''in'',
     tx_paymentIntentId = map_option Ref (source_payment_intent (tr_source_transaction t)),
     tx_description = ''Payout received'',
     tx_receiptUrl = or_null (charge_receipt_url (tr_source_transaction t))\<rparr>"

definition reverse_transfer_tx :: "transfer \<Rightarrow> reversal \<Rightarrow> tx" where
  "reverse_transfer_tx t rv =
    \<lparr>tx_id = rv_id rv,
     tx_amount = rv_amount rv,
     tx_amountRm = of_int (rv_amount rv) / 100,
     tx_currency = tr_currency t,
     tx_created = rv_created rv,
     tx_type = ''reverse_transfer'',
     tx_direction = ''out'',
     tx_paymentIntentId = map_option Ref (source_payment_intent (tr_source_transaction t)),
     tx_description = ''Payout reversed'',
     tx_receiptUrl = or_null (charge_receipt_url (tr_source_transaction t))\<rparr>"

text \<open>\<^verbatim>\<open>t.reversals?.data || []\<close> (line 382); the source's \<^verbatim>\<open>rev\<close> is \<open>rv\<close> above.\<close>

definition revs_of :: "transfer \<Rightarrow> reversal list" where
  "revs_of t = (case tr_reversals t of None \<Rightarrow> [] | Some d \<Rightarrow> d)"

text \<open>The loop of lines 365-397, pushing onto \<open>payouts\<close> and \<open>reversals\<close>.\<close>

fun collect_owner :: "transfer list \<Rightarrow> tx list \<Rightarrow> tx list \<Rightarrow> tx list \<times> tx list" where
  "collect_owner [] payouts reversals = (payouts, reversals)"
| "collect_owner (t # ts) payouts reversals =
    collect_owner ts (payouts @ [payout_tx t])
      (reversals @ map (reverse_transfer_tx t) (revs_of t))"

definition transactions_owner ::
  "stripe \<Rightarrow> obj \<Rightarrow> call list \<Rightarrow> tx list response \<times> call list" where
  "transactions_owner S body h =
    (let connectAccountId = lookup body ''connectAccountId''
     in if \<not> truthy connectAccountId
        then (\<lparr>status = 400, payload = ErrorBody ''Missing connectAccountId''\<rparr>, h)
        else
          let q = ByDestination connectAccountId 50
                    [''data.source_transaction.payment_intent'', ''data.reversals''];
              h1 = h @ [TransfersList q]
          in (case transfers_list S h q of
                Inl err \<Rightarrow> (\<lparr>status = 500, payload = ErrorBody (message err)\<rparr>, h1)
              | Inr transfers \<Rightarrow>
                  (case collect_owner transfers [] [] of
                     (payouts, reversals) \<Rightarrow>
                       (\<lparr>status = 200,
                         payload = Body (js_sort by_created_desc (payouts @ reversals))\<rparr>,
                        h1))))"

section \<open>Concrete platforms\<close>

text \<open>
  A platform for running the handlers on concrete requests: it rejects the calls that
  \<open>rejects\<close> selects and answers every other call with the given objects.
\<close>

definition scripted ::
  "(call \<Rightarrow> bool) \<Rightarrow> payment_intent \<Rightarrow> refund \<Rightarrow> transfer list \<Rightarrow> charge list
    \<Rightarrow> refund list \<Rightarrow> stripe" where
  "scripted rejects intent refund transfers charges refunds =
    \<lparr>paymentIntents_create = (\<lambda>h p.
        if rejects (PaymentIntentsCreate p) then Inl (StripeError ''rejected'')
        else Inr (intent\<lparr>pi_transfer_group := Some (pp_transfer_group p)\<rparr>)),
     refunds_create = (\<lambda>h i.
        if rejects (RefundsCreate i) then Inl (StripeError ''rejected'') else Inr refund),
     paymentIntents_retrieve = (\<lambda>h i.
        if rejects (PaymentIntentsRetrieve i) then Inl (StripeError ''rejected'')
        else Inr intent),
     transfers_list = (\<lambda>h q.
        if rejects (TransfersList q) then Inl (StripeError ''rejected'') else Inr transfers),
     transfers_createReversal = (\<lambda>h i a.
        if rejects (TransfersCreateReversal i a) then Inl (StripeError ''rejected'')
        else Inr \<lparr>rv_id = ''trr_'' @ i, rv_amount = a, rv_created = 0\<rparr>),
     charges_list = (\<lambda>h c n.
        if rejects (ChargesList c n) then Inl (StripeError ''rejected'') else Inr charges),
     refunds_list = (\<lambda>h n e.
        if rejects (RefundsList n e) then Inl (StripeError ''rejected'') else Inr refunds),
     customers_del = (\<lambda>h c.
        if rejects (CustomersDel c) then Inl (StripeError ''rejected'') else Inr ()),
     accounts_del = (\<lambda>h a.
        if rejects (AccountsDel a) then Inl (StripeError ''rejected'') else Inr ())\<rparr>"

definition intent1 :: payment_intent where
  "intent1 = \<lparr>pi_id = ''pi_1'', pi_client_secret = Some ''secret_1'',
              pi_transfer_group = Some ''booking_1700000000000''\<rparr>"

definition refund1 :: refund where
  "refund1 = \<lparr>re_id = ''re_1'', re_status = Some ''succeeded'', re_amount = 10000,
              re_currency = ''myr'', re_created = 200, re_payment_intent = Some (Ref ''pi_1''),
              re_charge = Some (Ref ''ch_1'')\<rparr>"

definition transfer1 :: transfer where
  "transfer1 = \<lparr>tr_id = ''tr_1'', tr_amount = 9500, tr_currency = ''myr'', tr_created = 100,
                tr_source_transaction = None, tr_reversals = None\<rparr>"

definition transfer2 :: transfer where
  "transfer2 = \<lparr>tr_id = ''tr_2'', tr_amount = 300, tr_currency = ''myr'', tr_created = 100,
                tr_source_transaction = None, tr_reversals = None\<rparr>"

definition charge1 :: charge where
  "charge1 = \<lparr>ch_id = ''ch_1'', ch_amount = 10000, ch_currency = ''myr'', ch_created = 100,
              ch_payment_intent = Some (Ref ''pi_1''), ch_description = Some ''Rentify booking'',
              ch_receipt_url = None, ch_customer = Some (Ref ''cus_1'')\<rparr>"

definition charge2 :: charge where
  "charge2 = \<lparr>ch_id = ''ch_2'', ch_amount = 2500, ch_currency = ''myr'', ch_created = 100,
              ch_payment_intent = Some (Ref ''pi_2''), ch_description = None,
              ch_receipt_url = None, ch_customer = Some (Ref ''cus_1'')\<rparr>"

definition accepting :: stripe where
  "accepting =
    scripted (\<lambda>c. False) intent1 refund1 [transfer1, transfer2] [charge1, charge2] []"

definition rejecting :: stripe where
  "rejecting =
    scripted (\<lambda>c. True) intent1 refund1 [transfer1, transfer2] [charge1, charge2] []"

definition booking_request :: obj where
  "booking_request =
    [(''amount'', JNum 10000), (''customerId'', JStr ''cus_1''),
     (''ownerConnectAccountId'', JStr ''acct_1''), (''platformFee'', JNum 500)]"

definition second_request :: obj where
  "second_request =
    [(''amount'', JNum 2500), (''customerId'', JStr ''cus_2''),
     (''ownerConnectAccountId'', JStr ''acct_1'')]"

definition high_fee_request :: obj where
  "high_fee_request =
    [(''amount'', JNum 10000), (''customerId'', JStr ''cus_1''),
     (''ownerConnectAccountId'', JStr ''acct_1''), (''platformFee'', JNum 20000)]"


definition zero_amount_request :: obj where
  "zero_amount_request =
    [(''amount'', JNum 0), (''customerId'', JStr ''cus_1''),
     (''ownerConnectAccountId'', JStr ''acct_1'')]"

definition negative_amount_request :: obj where
  "negative_amount_request =
    [(''amount'', JNum (- 500)), (''customerId'', JStr ''cus_1''),
     (''ownerConnectAccountId'', JStr ''acct_1'')]"

definition refund_request :: obj where
  "refund_request = [(''paymentIntentId'', JStr ''pi_1'')]"

text \<open>A platform that rejects the reversal of the first of the two transfers only.\<close>

definition first_reversal_fails :: stripe where
  "first_reversal_fails =
    scripted (\<lambda>c. c = TransfersCreateReversal ''tr_1'' 9500) intent1 refund1
      [transfer1, transfer2] [charge1, charge2] []"

text \<open>A platform whose payment has no settlement-group token.\<close>

definition ungrouped :: stripe where
  "ungrouped =
    scripted (\<lambda>c. False) (intent1\<lparr>pi_transfer_group := None\<rparr>) refund1
      [transfer1, transfer2] [charge1, charge2] []"

text \<open>A platform that rejects the reversal of the second of the two transfers only.\<close>

definition second_reversal_fails :: stripe where
  "second_reversal_fails =
    scripted (\<lambda>c. c = TransfersCreateReversal ''tr_2'' 300) intent1 refund1
      [transfer1, transfer2] [charge1, charge2] []"

definition charge3 :: charge where
  "charge3 = \<lparr>ch_id = ''ch_3'', ch_amount = 4000, ch_currency = ''myr'', ch_created = 300,
              ch_payment_intent = Some (Ref ''pi_3''), ch_description = Some '''',
              ch_receipt_url = Some ''https://pay.example/r3'',
              ch_customer = Some (Ref ''cus_1'')\<rparr>"

definition charge_other :: charge where
  "charge_other = \<lparr>ch_id = ''ch_9'', ch_amount = 700, ch_currency = ''myr'', ch_created = 240,
              ch_payment_intent = Some (Ref ''pi_9''), ch_description = None,
              ch_receipt_url = None, ch_customer = Some (Ref ''cus_2'')\<rparr>"

definition refund2 :: refund where
  "refund2 = \<lparr>re_id = ''re_2'', re_status = Some ''succeeded'', re_amount = 10000,
              re_currency = ''myr'', re_created = 200, re_payment_intent = Some (Ref ''pi_1''),
              re_charge = Some (Expanded charge1)\<rparr>"

definition refund_other :: refund where
  "refund_other = \<lparr>re_id = ''re_9'', re_status = Some ''succeeded'', re_amount = 700,
              re_currency = ''myr'', re_created = 250, re_payment_intent = Some (Ref ''pi_9''),
              re_charge = Some (Expanded charge_other)\<rparr>"

definition transfer3 :: transfer where
  "transfer3 = \<lparr>tr_id = ''tr_3'', tr_amount = 3800, tr_currency = ''myr'', tr_created = 310,
                tr_source_transaction = Some (Expanded charge3),
                tr_reversals = Some [\<lparr>rv_id = ''trr_3'', rv_amount = 3800, rv_created = 400\<rparr>]\<rparr>"

text \<open>A platform with a history of charges, refunds and transfers.\<close>

definition history :: stripe where
  "history =
    scripted (\<lambda>c. False) intent1 refund1 [transfer1, transfer3] [charge1, charge3]
      [refund_other, refund1, refund2]"

definition renter_request :: obj where
  "renter_request = [(''customerId'', JStr ''cus_1'')]"

definition owner_request :: obj where
  "owner_request = [(''connectAccountId'', JStr ''acct_1'')]"

definition delete_customer_request :: obj where
  "delete_customer_request = [(''customerId'', JStr ''cus_1'')]"

definition delete_both_request :: obj where
  "delete_both_request =
    [(''customerId'', JStr ''cus_1''), (''connectAccountId'', JStr ''acct_1'')]"

definition running_env :: env where
  "running_env = [''STRIPE_SECRET_KEY'' \<mapsto> ''sk_test_1'']"

section \<open>Payment initiation\<close>

lemma create_payment_intent_rejected:
  assumes "\<not> truthy (lookup body ''amount'') \<or> \<not> truthy (lookup body ''customerId'')
           \<or> \<not> truthy (lookup body ''ownerConnectAccountId'')"
  shows "create_payment_intent S now (Some body) h =
           (\<lparr>status = 400, payload = ErrorBody ''Missing fields''\<rparr>, h)"
  using assms by (auto simp add: create_payment_intent_def Let_def)

lemma create_payment_intent_accepted:
  assumes "truthy (lookup body ''amount'')" "truthy (lookup body ''customerId'')"
          "truthy (lookup body ''ownerConnectAccountId'')"
  shows "\<exists>p. pp_amount p = lookup body ''amount''
           \<and> pp_application_fee_amount p = dflt (lookup body ''platformFee'') (JNum 0)
           \<and> pp_transfer_group p = ''booking_'' @ show_int now
           \<and> snd (create_payment_intent S now (Some body) h) = h @ [PaymentIntentsCreate p]
           \<and> (\<forall>err. paymentIntents_create S h p = Inl err \<longrightarrow>
                 fst (create_payment_intent S now (Some body) h) =
                   \<lparr>status = 500, payload = ErrorBody (message err)\<rparr>)
           \<and> (\<forall>paymentIntent. paymentIntents_create S h p = Inr paymentIntent \<longrightarrow>
                 fst (create_payment_intent S now (Some body) h) =
                   \<lparr>status = 200,
                    payload = Body \<lparr>clientSecret = pi_client_secret paymentIntent,
                                    paymentIntentId = pi_id paymentIntent,
                                    transferGroup = ''booking_'' @ show_int now\<rparr>\<rparr>)"
  using assms by (simp add: create_payment_intent_def Let_def split: sum.splits)

lemma create_payment_intent_token:
  assumes "payload (fst (create_payment_intent S now req_body h)) = Body b"
  shows "transferGroup b = ''booking_'' @ show_int now"
  using assms
  by (auto simp add: create_payment_intent_def Let_def
        split: option.splits if_splits sum.splits)


subsection \<open>The token as a function of the clock\<close>

lemma digit_char_value:
  assumes "d < 10"
  shows "of_char (''0123456789'' ! d) = (48::nat) + d"
proof -
  from assms have "d = 0 \<or> d = 1 \<or> d = 2 \<or> d = 3 \<or> d = 4 \<or> d = 5 \<or> d = 6 \<or> d = 7
                   \<or> d = 8 \<or> d = 9"
    by arith
  then show ?thesis by (elim disjE) simp_all
qed

lemma digits_not_empty: "digits n \<noteq> []"
  by (subst digits.simps) simp

lemma digits_chars: "c \<in> set (digits n) \<Longrightarrow> c \<in> set ''0123456789''"
proof (induction n rule: digits.induct)
  case (1 n)
  show ?case
  proof (cases "n < 10")
    case True
    with "1.prems" have "c = ''0123456789'' ! n" by (subst (asm) digits.simps) simp
    moreover from True have "''0123456789'' ! n \<in> set ''0123456789''"
      by (intro nth_mem) simp
    ultimately show ?thesis by (simp only:)
  next
    case False
    with "1.prems" have "c \<in> set (digits (n div 10)) \<or> c = ''0123456789'' ! (n mod 10)"
      by (subst (asm) digits.simps) auto
    then show ?thesis
    proof
      assume "c \<in> set (digits (n div 10))"
      with "1.IH"[OF False] show ?thesis by blast
    next
      assume c: "c = ''0123456789'' ! (n mod 10)"
      have "''0123456789'' ! (n mod 10) \<in> set ''0123456789''"
        by (intro nth_mem) simp
      with c show ?thesis by (simp only:)
    qed
  qed
qed


lemma digits_value:
  "foldl (\<lambda>a c. 10 * a + (of_char c - 48)) 0 (digits n) = n"
proof (induction n rule: digits.induct)
  case (1 n)
  show ?case
  proof (cases "n < 10")
    case True
    then show ?thesis by (subst digits.simps) (simp add: digit_char_value)
  next
    case False
    have "n mod 10 < 10" by simp
    from digit_char_value[OF this] "1.IH"[OF False] False
    show ?thesis by (subst digits.simps) simp
  qed
qed

lemma digits_inj: "digits a = digits b \<Longrightarrow> a = b"
  by (metis digits_value)

lemma show_int_inj:
  assumes "show_int i = show_int j"
  shows "i = j"
proof -
  have no_minus: "digits n \<noteq> CHR ''-'' # cs" for n cs
  proof
    assume e: "digits n = CHR ''-'' # cs"
    then have "CHR ''-'' \<in> set (digits n)" by simp
    from digits_chars[OF this] show False by simp
  qed
  consider "i < 0" "j < 0" | "i < 0" "\<not> j < 0" | "\<not> i < 0" "j < 0" | "\<not> i < 0" "\<not> j < 0"
    by blast
  then show ?thesis
  proof cases
    case 1
    with assms have "digits (nat (- i)) = digits (nat (- j))" by (simp add: show_int_def)
    from digits_inj[OF this] 1 show ?thesis by simp
  next
    case 2
    with assms have "digits (nat j) = CHR ''-'' # digits (nat (- i))"
      by (simp add: show_int_def)
    with no_minus show ?thesis by blast
  next
    case 3
    with assms have "digits (nat i) = CHR ''-'' # digits (nat (- j))"
      by (simp add: show_int_def)
    with no_minus show ?thesis by blast
  next
    case 4
    with assms have "digits (nat i) = digits (nat j)" by (simp add: show_int_def)
    from digits_inj[OF this] 4 show ?thesis by simp
  qed
qed

text \<open>
  The tokens of two successful initiations are equal exactly when the two readings of
  the clock are.
\<close>

lemma create_payment_intent_group_eq_iff:
  assumes "payload (fst (create_payment_intent S now1 body1 h1)) = Body b1"
      and "payload (fst (create_payment_intent S' now2 body2 h2)) = Body b2"
  shows "(transferGroup b1 = transferGroup b2) = (now1 = now2)"
  using create_payment_intent_token[OF assms(1)] create_payment_intent_token[OF assms(2)]
        show_int_inj[of now1 now2]
  by auto

text \<open>
  C1. Two successful initiations, the second right after the first, that read the same
  value of the clock return the same settlement-group token: the token is a function of
  the clock reading alone, so it is not unique per request.
\<close>

theorem create_payment_intent_same_clock_same_group:
  assumes "payload (fst (create_payment_intent S now body1 h)) = Body b1"
      and "payload (fst (create_payment_intent S now body2
                           (snd (create_payment_intent S now body1 h)))) = Body b2"
  shows "transferGroup b1 = transferGroup b2"
  using create_payment_intent_token[OF assms(1)] create_payment_intent_token[OF assms(2)]
  by simp

theorem create_payment_intent_same_clock_same_group_witness:
  "payload (fst (create_payment_intent accepting 1700000000000 (Some booking_request) [])) =
     Body \<lparr>clientSecret = Some ''secret_1'', paymentIntentId = ''pi_1'',
           transferGroup = ''booking_1700000000000''\<rparr>
   \<and> payload (fst (create_payment_intent accepting 1700000000000 (Some second_request)
                      (snd (create_payment_intent accepting 1700000000000 (Some booking_request) [])))) =
     Body \<lparr>clientSecret = Some ''secret_1'', paymentIntentId = ''pi_1'',
           transferGroup = ''booking_1700000000000''\<rparr>"
proof -
  have 1: "payload (fst (create_payment_intent accepting 1700000000000 (Some booking_request) [])) =
     Body \<lparr>clientSecret = Some ''secret_1'', paymentIntentId = ''pi_1'',
           transferGroup = ''booking_1700000000000''\<rparr>"
    by (simp add: create_payment_intent_def Let_def lookup_def dflt_def accepting_def
          booking_request_def scripted_def intent1_def show_int_def digits.simps)
  have "\<exists>b. payload (fst (create_payment_intent accepting 1700000000000 (Some second_request)
                      (snd (create_payment_intent accepting 1700000000000 (Some booking_request) [])))) =
     Body b \<and> clientSecret b = Some ''secret_1'' \<and> paymentIntentId b = ''pi_1''"
    by (simp add: create_payment_intent_def Let_def lookup_def dflt_def accepting_def
          second_request_def scripted_def intent1_def)
  then obtain b where 2: "payload (fst (create_payment_intent accepting 1700000000000
        (Some second_request)
        (snd (create_payment_intent accepting 1700000000000 (Some booking_request) [])))) = Body b"
    and 3: "clientSecret b = Some ''secret_1''" "paymentIntentId b = ''pi_1''"
    by blast
  from create_payment_intent_same_clock_same_group[OF 1 2]
  have "transferGroup b = ''booking_1700000000000''" by simp
  with 3 have "b = \<lparr>clientSecret = Some ''secret_1'', paymentIntentId = ''pi_1'',
           transferGroup = ''booking_1700000000000''\<rparr>" by simp
  with 1 2 show ?thesis by simp
qed




text \<open>
  C7. There is no local check of the platform fee against the amount: every request
  that passes the validation of the mandatory fields makes the payment-creation call
  with the amount and the platformFee of the request (0 when the request has none),
  whatever their order, and a rejection by the platform is answered 500 with the
  platform's message.
\<close>

theorem create_payment_intent_no_fee_check:
  assumes "truthy (lookup body ''amount'')" "truthy (lookup body ''customerId'')"
          "truthy (lookup body ''ownerConnectAccountId'')"
  shows "\<exists>p. snd (create_payment_intent S now (Some body) h) = h @ [PaymentIntentsCreate p]
           \<and> pp_amount p = lookup body ''amount''
           \<and> pp_application_fee_amount p = dflt (lookup body ''platformFee'') (JNum 0)
           \<and> (\<forall>err. paymentIntents_create S h p = Inl err \<longrightarrow>
                 fst (create_payment_intent S now (Some body) h) =
                   \<lparr>status = 500, payload = ErrorBody (message err)\<rparr>)"
  using create_payment_intent_accepted[OF assms, of now S h] by blast

theorem create_payment_intent_no_fee_check_witness:
  "truthy (lookup high_fee_request ''amount'')
   \<and> truthy (lookup high_fee_request ''customerId'')
   \<and> truthy (lookup high_fee_request ''ownerConnectAccountId'')
   \<and> (\<exists>p. snd (create_payment_intent rejecting 1700000000000 (Some high_fee_request) []) =
              [PaymentIntentsCreate p]
          \<and> pp_amount p = JNum 10000
          \<and> pp_application_fee_amount p = JNum 20000)
   \<and> fst (create_payment_intent rejecting 1700000000000 (Some high_fee_request) []) =
        \<lparr>status = 500, payload = ErrorBody ''rejected''\<rparr>"
proof -
  have t: "truthy (lookup high_fee_request ''amount'')"
          "truthy (lookup high_fee_request ''customerId'')"
          "truthy (lookup high_fee_request ''ownerConnectAccountId'')"
    by (simp_all add: lookup_def high_fee_request_def)
  from create_payment_intent_no_fee_check[OF t, of rejecting 1700000000000 "[]"]
  obtain p where p:
    "snd (create_payment_intent rejecting 1700000000000 (Some high_fee_request) []) =
       [PaymentIntentsCreate p]"
    "pp_amount p = lookup high_fee_request ''amount''"
    "pp_application_fee_amount p = dflt (lookup high_fee_request ''platformFee'') (JNum 0)"
    "\<forall>err. paymentIntents_create rejecting [] p = Inl err \<longrightarrow>
        fst (create_payment_intent rejecting 1700000000000 (Some high_fee_request) []) =
          \<lparr>status = 500, payload = ErrorBody (message err)\<rparr>"
    by auto
  have "paymentIntents_create rejecting [] p = Inl (StripeError ''rejected'')"
    by (simp add: rejecting_def scripted_def)
  with p(4) have r: "fst (create_payment_intent rejecting 1700000000000 (Some high_fee_request) []) =
        \<lparr>status = 500, payload = ErrorBody ''rejected''\<rparr>"
    by simp
  have "pp_amount p = JNum 10000" "pp_application_fee_amount p = JNum 20000"
    using p(2,3) by (simp_all add: lookup_def dflt_def high_fee_request_def)
  with p(1) r t show ?thesis by blast
qed

text \<open>
  C8. On a parsed body, the local validation answers 400 exactly when amount,
  customerId or ownerConnectAccountId is falsy. An amount of 0 is answered 400 with no platform call;
  a negative amount, the other two fields truthy, passes and is the amount of the
  payment-creation call.
\<close>

theorem create_payment_intent_validation_exact:
  "(status (fst (create_payment_intent S now (Some body) h)) = 400) =
     (\<not> truthy (lookup body ''amount'') \<or> \<not> truthy (lookup body ''customerId'')
      \<or> \<not> truthy (lookup body ''ownerConnectAccountId''))
   \<and> (lookup body ''amount'' = JNum 0 \<longrightarrow>
        create_payment_intent S now (Some body) h =
          (\<lparr>status = 400, payload = ErrorBody ''Missing fields''\<rparr>, h))
   \<and> (\<forall>n. n < 0 \<and> lookup body ''amount'' = JNum n \<and> truthy (lookup body ''customerId'')
            \<and> truthy (lookup body ''ownerConnectAccountId'') \<longrightarrow>
          (\<exists>p. snd (create_payment_intent S now (Some body) h) = h @ [PaymentIntentsCreate p]
               \<and> pp_amount p = JNum n))"
proof (intro conjI allI impI)
  show "(status (fst (create_payment_intent S now (Some body) h)) = 400) =
     (\<not> truthy (lookup body ''amount'') \<or> \<not> truthy (lookup body ''customerId'')
      \<or> \<not> truthy (lookup body ''ownerConnectAccountId''))"
    by (auto simp add: create_payment_intent_def Let_def split: sum.splits)
next
  assume "lookup body ''amount'' = JNum 0"
  then have "\<not> truthy (lookup body ''amount'')" by simp
  then show "create_payment_intent S now (Some body) h =
          (\<lparr>status = 400, payload = ErrorBody ''Missing fields''\<rparr>, h)"
    by (rule create_payment_intent_rejected[OF disjI1])
next
  fix n
  assume a: "n < 0 \<and> lookup body ''amount'' = JNum n \<and> truthy (lookup body ''customerId'')
            \<and> truthy (lookup body ''ownerConnectAccountId'')"
  then have "truthy (lookup body ''amount'')" by simp
  from create_payment_intent_accepted[OF this, of now S h] a
  show "\<exists>p. snd (create_payment_intent S now (Some body) h) = h @ [PaymentIntentsCreate p]
               \<and> pp_amount p = JNum n"
    by auto
qed

theorem create_payment_intent_validation_exact_witness:
  "create_payment_intent accepting 1700000000000 (Some zero_amount_request) [] =
     (\<lparr>status = 400, payload = ErrorBody ''Missing fields''\<rparr>, [])
   \<and> (\<exists>p. snd (create_payment_intent accepting 1700000000000 (Some negative_amount_request) []) =
              [PaymentIntentsCreate p]
          \<and> pp_amount p = JNum (- 500))
   \<and> status (fst (create_payment_intent accepting 1700000000000
                     (Some negative_amount_request) [])) = 200"
proof -
  have z: "lookup zero_amount_request ''amount'' = JNum 0"
    by (simp add: lookup_def zero_amount_request_def)
  have m: "(- 500 :: int) < 0 \<and> lookup negative_amount_request ''amount'' = JNum (- 500)
           \<and> truthy (lookup negative_amount_request ''customerId'')
           \<and> truthy (lookup negative_amount_request ''ownerConnectAccountId'')"
    by (simp add: lookup_def negative_amount_request_def)
  have s: "status (fst (create_payment_intent accepting 1700000000000
                          (Some negative_amount_request) [])) = 200"
    by (simp add: create_payment_intent_def Let_def lookup_def dflt_def accepting_def
          scripted_def negative_amount_request_def)
  from create_payment_intent_validation_exact
         [of accepting 1700000000000 zero_amount_request "[]"] z
  have 1: "create_payment_intent accepting 1700000000000 (Some zero_amount_request) [] =
     (\<lparr>status = 400, payload = ErrorBody ''Missing fields''\<rparr>, [])"
    by blast
  from create_payment_intent_validation_exact
         [of accepting 1700000000000 negative_amount_request "[]"] m
  have 2: "\<exists>p. snd (create_payment_intent accepting 1700000000000
                       (Some negative_amount_request) []) = [PaymentIntentsCreate p]
              \<and> pp_amount p = JNum (- 500)"
    by (metis append_Nil)
  from 1 2 s show ?thesis by blast
qed

section \<open>Reverse settlement\<close>

subsection \<open>The reversal loop\<close>

lemma reverse_each_all_succeed:
  assumes "length rs = length ts"
      and "\<forall>i<length ts.
             transfers_createReversal S (h @ map reversal_call (take i ts))
               (tr_id (ts ! i)) (tr_amount (ts ! i)) = Inr (rs ! i)"
  shows "reverse_each S ts r0 h =
           (Inr (if ts = [] then r0 else Some (last rs)), h @ map reversal_call ts)"
  using assms
proof (induction ts arbitrary: rs r0 h)
  case Nil
  then show ?case by simp
next
  case (Cons t ts)
  from Cons.prems(1) obtain r rs' where rs: "rs = r # rs'" and len: "length rs' = length ts"
    by (cases rs) auto
  from Cons.prems(2) have first: "transfers_createReversal S h (tr_id t) (tr_amount t) = Inr r"
    using rs by fastforce
  have rest: "\<forall>i<length ts.
             transfers_createReversal S ((h @ [reversal_call t]) @ map reversal_call (take i ts))
               (tr_id (ts ! i)) (tr_amount (ts ! i)) = Inr (rs' ! i)"
  proof (intro allI impI)
    fix i assume "i < length ts"
    then have "Suc i < length (t # ts)" by simp
    with Cons.prems(2) have
      "transfers_createReversal S (h @ map reversal_call (take (Suc i) (t # ts)))
         (tr_id ((t # ts) ! Suc i)) (tr_amount ((t # ts) ! Suc i)) = Inr (rs ! Suc i)"
      by blast
    then show "transfers_createReversal S
                 ((h @ [reversal_call t]) @ map reversal_call (take i ts))
                 (tr_id (ts ! i)) (tr_amount (ts ! i)) = Inr (rs' ! i)"
      using rs by simp
  qed
  from Cons.IH[OF len rest, of "Some r"]
  have "reverse_each S ts (Some r) (h @ [reversal_call t]) =
          (Inr (if ts = [] then Some r else Some (last rs')),
           (h @ [reversal_call t]) @ map reversal_call ts)" .
  with first rs len show ?case by (cases ts) auto
qed

lemma reverse_each_fails_at:
  assumes "k < length ts"
      and "\<forall>i<k. \<exists>r.
             transfers_createReversal S (h @ map reversal_call (take i ts))
               (tr_id (ts ! i)) (tr_amount (ts ! i)) = Inr r"
      and "transfers_createReversal S (h @ map reversal_call (take k ts))
             (tr_id (ts ! k)) (tr_amount (ts ! k)) = Inl err"
  shows "reverse_each S ts r0 h = (Inl err, h @ map reversal_call (take (Suc k) ts))"
  using assms
proof (induction ts arbitrary: k r0 h)
  case Nil
  then show ?case by simp
next
  case (Cons t ts)
  show ?case
  proof (cases k)
    case 0
    with Cons.prems(3) show ?thesis by simp
  next
    case (Suc j)
    with Cons.prems(1) have j: "j < length ts" by simp
    from Cons.prems(2) Suc obtain r where
      first: "transfers_createReversal S h (tr_id t) (tr_amount t) = Inr r"
      by fastforce
    have ok: "\<forall>i<j. \<exists>r.
             transfers_createReversal S ((h @ [reversal_call t]) @ map reversal_call (take i ts))
               (tr_id (ts ! i)) (tr_amount (ts ! i)) = Inr r"
    proof (intro allI impI)
      fix i assume "i < j"
      then have "Suc i < k" using Suc by simp
      with Cons.prems(2) obtain r' where
        "transfers_createReversal S (h @ map reversal_call (take (Suc i) (t # ts)))
           (tr_id ((t # ts) ! Suc i)) (tr_amount ((t # ts) ! Suc i)) = Inr r'"
        by blast
      then show "\<exists>r. transfers_createReversal S
                 ((h @ [reversal_call t]) @ map reversal_call (take i ts))
                 (tr_id (ts ! i)) (tr_amount (ts ! i)) = Inr r"
        by simp
    qed
    from Cons.prems(3) Suc have bad:
      "transfers_createReversal S ((h @ [reversal_call t]) @ map reversal_call (take j ts))
         (tr_id (ts ! j)) (tr_amount (ts ! j)) = Inl err"
      by simp
    from Cons.IH[OF j ok bad, of "Some r"] first Suc show ?thesis by simp
  qed
qed

subsection \<open>The paths of the handler\<close>

lemma refund_handler_refund_fails:
  assumes "lookup body ''paymentIntentId'' = pid" "truthy pid"
      and "refunds_create S h pid = Inl err"
  shows "refund_handler S body h =
           (\<lparr>status = 500, payload = ErrorBody (message err)\<rparr>, h @ [RefundsCreate pid])"
  using assms by (simp add: refund_handler_def Let_def)

lemma refund_handler_retrieve_fails:
  assumes "lookup body ''paymentIntentId'' = pid" "truthy pid"
      and "refunds_create S h pid = Inr refund"
      and "paymentIntents_retrieve S (h @ [RefundsCreate pid]) pid = Inl err"
  shows "refund_handler S body h =
           (\<lparr>status = 500, payload = ErrorBody (message err)\<rparr>,
            h @ [RefundsCreate pid, PaymentIntentsRetrieve pid])"
  using assms by (simp add: refund_handler_def Let_def)

lemma refund_handler_no_group:
  assumes "lookup body ''paymentIntentId'' = pid" "truthy pid"
      and "refunds_create S h pid = Inr refund"
      and "paymentIntents_retrieve S (h @ [RefundsCreate pid]) pid = Inr intent"
      and "\<not> truthy_str (pi_transfer_group intent)"
  shows "refund_handler S body h =
           (no_group_reply refund, h @ [RefundsCreate pid, PaymentIntentsRetrieve pid])"
  using assms by (cases "pi_transfer_group intent") (simp_all add: refund_handler_def Let_def)

lemma refund_handler_list_fails:
  assumes "lookup body ''paymentIntentId'' = pid" "truthy pid"
      and "refunds_create S h pid = Inr refund"
      and "paymentIntents_retrieve S (h @ [RefundsCreate pid]) pid = Inr intent"
      and "pi_transfer_group intent = Some g" "g \<noteq> []"
      and "transfers_list S (h @ [RefundsCreate pid, PaymentIntentsRetrieve pid]) (ByGroup g)
             = Inl err"
  shows "refund_handler S body h =
           (\<lparr>status = 500, payload = ErrorBody (message err)\<rparr>,
            h @ [RefundsCreate pid, PaymentIntentsRetrieve pid, TransfersList (ByGroup g)])"
  using assms by (simp add: refund_handler_def Let_def)

lemma refund_handler_listed:
  assumes "lookup body ''paymentIntentId'' = pid" "truthy pid"
      and "refunds_create S h pid = Inr refund"
      and "paymentIntents_retrieve S (h @ [RefundsCreate pid]) pid = Inr intent"
      and "pi_transfer_group intent = Some g" "g \<noteq> []"
      and "transfers_list S (h @ [RefundsCreate pid, PaymentIntentsRetrieve pid]) (ByGroup g)
             = Inr ts"
  shows "refund_handler S body h =
           (case reverse_each S ts None
                   (h @ [RefundsCreate pid, PaymentIntentsRetrieve pid,
                         TransfersList (ByGroup g)]) of
              (Inl err, h4) \<Rightarrow> (\<lparr>status = 500, payload = ErrorBody (message err)\<rparr>, h4)
            | (Inr reversal, h4) \<Rightarrow>
                (\<lparr>status = 200,
                  payload = Body \<lparr>rr_success = True,
                                  refundId = re_id refund,
                                  refundStatus = re_status refund,
                                  transferReversed = (reversal \<noteq> None),
                                  rr_reversal = Some reversal\<rparr>\<rparr>, h4))"
  using assms by (simp add: refund_handler_def Let_def)

text \<open>
  C2. When the refund, the retrieval, the listing and every one of the reversal calls
  succeed, and the listing returns N >= 1 transfers, the handler issues exactly N
  reversal calls, one per transfer in the order of the list, each with the transfer's
  own id and full amount and each after the answer to the one before; it answers 200
  with transferReversed = true and the record of the last reversal only.
\<close>

theorem refund_reverses_every_transfer:
  assumes "lookup body ''paymentIntentId'' = pid" "truthy pid"
      and "refunds_create S h pid = Inr refund"
      and "paymentIntents_retrieve S (h @ [RefundsCreate pid]) pid = Inr intent"
      and "pi_transfer_group intent = Some g" "g \<noteq> []"
      and "transfers_list S (h @ [RefundsCreate pid, PaymentIntentsRetrieve pid]) (ByGroup g)
             = Inr ts"
      and "ts \<noteq> []" "length rs = length ts"
      and "\<forall>i<length ts.
             transfers_createReversal S
               (h @ [RefundsCreate pid, PaymentIntentsRetrieve pid, TransfersList (ByGroup g)]
                  @ map reversal_call (take i ts))
               (tr_id (ts ! i)) (tr_amount (ts ! i)) = Inr (rs ! i)"
  shows "refund_handler S body h =
           (\<lparr>status = 200,
             payload = Body \<lparr>rr_success = True,
                             refundId = re_id refund,
                             refundStatus = re_status refund,
                             transferReversed = True,
                             rr_reversal = Some (Some (last rs))\<rparr>\<rparr>,
            h @ [RefundsCreate pid, PaymentIntentsRetrieve pid, TransfersList (ByGroup g)]
              @ map (\<lambda>t. TransfersCreateReversal (tr_id t) (tr_amount t)) ts)"
proof -
  let ?h3 = "h @ [RefundsCreate pid, PaymentIntentsRetrieve pid, TransfersList (ByGroup g)]"
  from assms(10) have all:
    "\<forall>i<length ts.
       transfers_createReversal S (?h3 @ map reversal_call (take i ts))
         (tr_id (ts ! i)) (tr_amount (ts ! i)) = Inr (rs ! i)"
    by simp
  from reverse_each_all_succeed[OF assms(9) all, of None] assms(8)
  have loop: "reverse_each S ts None ?h3 = (Inr (Some (last rs)), ?h3 @ map reversal_call ts)"
    by simp
  have calls: "map reversal_call ts = map (\<lambda>t. TransfersCreateReversal (tr_id t) (tr_amount t)) ts"
    by (simp add: reversal_call_def)
  from refund_handler_listed[OF assms(1-7)] loop calls show ?thesis by simp
qed

theorem refund_reverses_every_transfer_witness:
  "transfers_list accepting
     [RefundsCreate (JStr ''pi_1''), PaymentIntentsRetrieve (JStr ''pi_1'')]
     (ByGroup ''booking_1700000000000'') = Inr [transfer1, transfer2]
   \<and> refund_handler accepting refund_request [] =
       (\<lparr>status = 200,
         payload = Body \<lparr>rr_success = True,
                         refundId = ''re_1'',
                         refundStatus = Some ''succeeded'',
                         transferReversed = True,
                         rr_reversal = Some (Some \<lparr>rv_id = ''trr_tr_2'', rv_amount = 300,
                                                   rv_created = 0\<rparr>)\<rparr>\<rparr>,
        [RefundsCreate (JStr ''pi_1''), PaymentIntentsRetrieve (JStr ''pi_1''),
         TransfersList (ByGroup ''booking_1700000000000''),
         TransfersCreateReversal ''tr_1'' 9500, TransfersCreateReversal ''tr_2'' 300])"
proof -
  let ?rs = "[\<lparr>rv_id = ''trr_tr_1'', rv_amount = 9500, rv_created = 0\<rparr>,
              \<lparr>rv_id = ''trr_tr_2'', rv_amount = 300, rv_created = 0\<rparr>]"
  have 1: "lookup refund_request ''paymentIntentId'' = JStr ''pi_1''"
    by (simp add: lookup_def refund_request_def)
  have 2: "truthy (JStr ''pi_1'')" by simp
  have 3: "refunds_create accepting [] (JStr ''pi_1'') = Inr refund1"
    by (simp add: accepting_def scripted_def)
  have 4: "paymentIntents_retrieve accepting ([] @ [RefundsCreate (JStr ''pi_1'')])
             (JStr ''pi_1'') = Inr intent1"
    by (simp add: accepting_def scripted_def)
  have 5: "pi_transfer_group intent1 = Some ''booking_1700000000000''"
    by (simp add: intent1_def)
  have 6: "''booking_1700000000000'' \<noteq> []" by simp
  have 7: "transfers_list accepting
             ([] @ [RefundsCreate (JStr ''pi_1''), PaymentIntentsRetrieve (JStr ''pi_1'')])
             (ByGroup ''booking_1700000000000'') = Inr [transfer1, transfer2]"
    by (simp add: accepting_def scripted_def)
  have 8: "[transfer1, transfer2] \<noteq> []" by simp
  have 9: "length ?rs = length [transfer1, transfer2]" by simp
  have 10: "\<forall>i<length [transfer1, transfer2].
             transfers_createReversal accepting
               ([] @ [RefundsCreate (JStr ''pi_1''), PaymentIntentsRetrieve (JStr ''pi_1''),
                      TransfersList (ByGroup ''booking_1700000000000'')]
                  @ map reversal_call (take i [transfer1, transfer2]))
               (tr_id ([transfer1, transfer2] ! i)) (tr_amount ([transfer1, transfer2] ! i))
             = Inr (?rs ! i)"
    by (simp add: accepting_def scripted_def transfer1_def transfer2_def less_Suc_eq)
  from refund_reverses_every_transfer[OF 1 2 3 4 5 6 7 8 9 10] 7
  show ?thesis by (simp add: refund1_def transfer1_def transfer2_def)
qed

text \<open>
  Against C2 as stated for every request: the listing returns two transfers, the
  platform rejects the reversal of the first, and the handler answers 500 after that
  one reversal call; the second transfer is never attempted.
\<close>

theorem refund_stops_at_failed_reversal:
  "transfers_list first_reversal_fails
     [RefundsCreate (JStr ''pi_1''), PaymentIntentsRetrieve (JStr ''pi_1'')]
     (ByGroup ''booking_1700000000000'') = Inr [transfer1, transfer2]
   \<and> refund_handler first_reversal_fails refund_request [] =
       (\<lparr>status = 500, payload = ErrorBody ''rejected''\<rparr>,
        [RefundsCreate (JStr ''pi_1''), PaymentIntentsRetrieve (JStr ''pi_1''),
         TransfersList (ByGroup ''booking_1700000000000''),
         TransfersCreateReversal ''tr_1'' 9500])"
  by (simp add: refund_handler_def Let_def lookup_def refund_request_def
        first_reversal_fails_def scripted_def intent1_def transfer1_def transfer2_def
        reversal_call_def)

text \<open>
  C3. If the refund call fails, the handler answers 500 with the platform's message and
  the refund call is the only call it made. If the refund succeeds and the retrieval,
  the listing or one of the reversals fails, the handler answers 500 with the message
  of the failed call, and the calls it made are the refund, the steps up to the failed
  one and nothing after it: no call undoes the refund.
\<close>

theorem refund_failure_paths:
  assumes "lookup body ''paymentIntentId'' = pid" "truthy pid"
  shows "(\<forall>err. refunds_create S h pid = Inl err \<longrightarrow>
            refund_handler S body h =
              (\<lparr>status = 500, payload = ErrorBody (message err)\<rparr>, h @ [RefundsCreate pid]))
       \<and> (\<forall>refund err.
            refunds_create S h pid = Inr refund
            \<and> paymentIntents_retrieve S (h @ [RefundsCreate pid]) pid = Inl err \<longrightarrow>
            refund_handler S body h =
              (\<lparr>status = 500, payload = ErrorBody (message err)\<rparr>,
               h @ [RefundsCreate pid, PaymentIntentsRetrieve pid]))
       \<and> (\<forall>refund intent g err.
            refunds_create S h pid = Inr refund
            \<and> paymentIntents_retrieve S (h @ [RefundsCreate pid]) pid = Inr intent
            \<and> pi_transfer_group intent = Some g \<and> g \<noteq> []
            \<and> transfers_list S (h @ [RefundsCreate pid, PaymentIntentsRetrieve pid])
                 (ByGroup g) = Inl err \<longrightarrow>
            refund_handler S body h =
              (\<lparr>status = 500, payload = ErrorBody (message err)\<rparr>,
               h @ [RefundsCreate pid, PaymentIntentsRetrieve pid,
                    TransfersList (ByGroup g)]))
       \<and> (\<forall>refund intent g ts k err.
            refunds_create S h pid = Inr refund
            \<and> paymentIntents_retrieve S (h @ [RefundsCreate pid]) pid = Inr intent
            \<and> pi_transfer_group intent = Some g \<and> g \<noteq> []
            \<and> transfers_list S (h @ [RefundsCreate pid, PaymentIntentsRetrieve pid])
                 (ByGroup g) = Inr ts
            \<and> k < length ts
            \<and> (\<forall>i<k. \<exists>r.
                  transfers_createReversal S
                    (h @ [RefundsCreate pid, PaymentIntentsRetrieve pid,
                          TransfersList (ByGroup g)] @ map reversal_call (take i ts))
                    (tr_id (ts ! i)) (tr_amount (ts ! i)) = Inr r)
            \<and> transfers_createReversal S
                  (h @ [RefundsCreate pid, PaymentIntentsRetrieve pid,
                        TransfersList (ByGroup g)] @ map reversal_call (take k ts))
                  (tr_id (ts ! k)) (tr_amount (ts ! k)) = Inl err \<longrightarrow>
            refund_handler S body h =
              (\<lparr>status = 500, payload = ErrorBody (message err)\<rparr>,
               h @ [RefundsCreate pid, PaymentIntentsRetrieve pid,
                    TransfersList (ByGroup g)] @ map reversal_call (take (Suc k) ts)))"
proof (intro conjI allI impI)
  fix err assume "refunds_create S h pid = Inl err"
  from refund_handler_refund_fails[OF assms this]
  show "refund_handler S body h =
          (\<lparr>status = 500, payload = ErrorBody (message err)\<rparr>, h @ [RefundsCreate pid])" .
next
  fix refund err
  assume "refunds_create S h pid = Inr refund
            \<and> paymentIntents_retrieve S (h @ [RefundsCreate pid]) pid = Inl err"
  then show "refund_handler S body h =
              (\<lparr>status = 500, payload = ErrorBody (message err)\<rparr>,
               h @ [RefundsCreate pid, PaymentIntentsRetrieve pid])"
    using refund_handler_retrieve_fails[OF assms] by blast
next
  fix refund intent g err
  assume "refunds_create S h pid = Inr refund
            \<and> paymentIntents_retrieve S (h @ [RefundsCreate pid]) pid = Inr intent
            \<and> pi_transfer_group intent = Some g \<and> g \<noteq> []
            \<and> transfers_list S (h @ [RefundsCreate pid, PaymentIntentsRetrieve pid])
                 (ByGroup g) = Inl err"
  then show "refund_handler S body h =
              (\<lparr>status = 500, payload = ErrorBody (message err)\<rparr>,
               h @ [RefundsCreate pid, PaymentIntentsRetrieve pid,
                    TransfersList (ByGroup g)])"
    using refund_handler_list_fails[OF assms] by blast
next
  fix refund intent g ts k err
  let ?h3 = "h @ [RefundsCreate pid, PaymentIntentsRetrieve pid, TransfersList (ByGroup g)]"
  assume a: "refunds_create S h pid = Inr refund
            \<and> paymentIntents_retrieve S (h @ [RefundsCreate pid]) pid = Inr intent
            \<and> pi_transfer_group intent = Some g \<and> g \<noteq> []
            \<and> transfers_list S (h @ [RefundsCreate pid, PaymentIntentsRetrieve pid])
                 (ByGroup g) = Inr ts
            \<and> k < length ts
            \<and> (\<forall>i<k. \<exists>r.
                  transfers_createReversal S
                    (h @ [RefundsCreate pid, PaymentIntentsRetrieve pid,
                          TransfersList (ByGroup g)] @ map reversal_call (take i ts))
                    (tr_id (ts ! i)) (tr_amount (ts ! i)) = Inr r)
            \<and> transfers_createReversal S
                  (h @ [RefundsCreate pid, PaymentIntentsRetrieve pid,
                        TransfersList (ByGroup g)] @ map reversal_call (take k ts))
                  (tr_id (ts ! k)) (tr_amount (ts ! k)) = Inl err"
  then have k: "k < length ts"
    and ok: "\<forall>i<k. \<exists>r. transfers_createReversal S (?h3 @ map reversal_call (take i ts))
                  (tr_id (ts ! i)) (tr_amount (ts ! i)) = Inr r"
    and bad: "transfers_createReversal S (?h3 @ map reversal_call (take k ts))
                  (tr_id (ts ! k)) (tr_amount (ts ! k)) = Inl err"
    by simp_all
  from reverse_each_fails_at[OF k ok bad, of None]
  have loop: "reverse_each S ts None ?h3 =
                (Inl err, ?h3 @ map reversal_call (take (Suc k) ts))" .
  from a have pre: "refunds_create S h pid = Inr refund"
    "paymentIntents_retrieve S (h @ [RefundsCreate pid]) pid = Inr intent"
    "pi_transfer_group intent = Some g" "g \<noteq> []"
    "transfers_list S (h @ [RefundsCreate pid, PaymentIntentsRetrieve pid]) (ByGroup g)
       = Inr ts"
    by simp_all
  from refund_handler_listed[OF assms pre] loop
  show "refund_handler S body h =
              (\<lparr>status = 500, payload = ErrorBody (message err)\<rparr>,
               h @ [RefundsCreate pid, PaymentIntentsRetrieve pid,
                    TransfersList (ByGroup g)] @ map reversal_call (take (Suc k) ts))"
    by simp
qed

theorem refund_failure_paths_witness:
  "refund_handler rejecting refund_request [] =
     (\<lparr>status = 500, payload = ErrorBody ''rejected''\<rparr>, [RefundsCreate (JStr ''pi_1'')])
   \<and> refund_handler second_reversal_fails refund_request [] =
       (\<lparr>status = 500, payload = ErrorBody ''rejected''\<rparr>,
        [RefundsCreate (JStr ''pi_1''), PaymentIntentsRetrieve (JStr ''pi_1''),
         TransfersList (ByGroup ''booking_1700000000000''),
         TransfersCreateReversal ''tr_1'' 9500, TransfersCreateReversal ''tr_2'' 300])"
proof -
  let ?pid = "JStr ''pi_1''"
  let ?g = "''booking_1700000000000''"
  let ?h3 = "[] @ [RefundsCreate ?pid, PaymentIntentsRetrieve ?pid, TransfersList (ByGroup ?g)]"
  have 1: "lookup refund_request ''paymentIntentId'' = ?pid"
    by (simp add: lookup_def refund_request_def)
  have 2: "truthy ?pid" by simp
  have a: "refunds_create rejecting [] ?pid = Inl (StripeError ''rejected'')"
    by (simp add: rejecting_def scripted_def)
  from refund_failure_paths[OF 1 2, of rejecting "[]"] a
  have first: "refund_handler rejecting refund_request [] =
     (\<lparr>status = 500, payload = ErrorBody ''rejected''\<rparr>, [RefundsCreate ?pid])"
    by simp
  have d: "refunds_create second_reversal_fails [] ?pid = Inr refund1
     \<and> paymentIntents_retrieve second_reversal_fails ([] @ [RefundsCreate ?pid]) ?pid
         = Inr intent1
     \<and> pi_transfer_group intent1 = Some ?g \<and> ?g \<noteq> []
     \<and> transfers_list second_reversal_fails
          ([] @ [RefundsCreate ?pid, PaymentIntentsRetrieve ?pid]) (ByGroup ?g)
         = Inr [transfer1, transfer2]
     \<and> 1 < length [transfer1, transfer2]
     \<and> (\<forall>i<1. \<exists>r.
           transfers_createReversal second_reversal_fails
             (?h3 @ map reversal_call (take i [transfer1, transfer2]))
             (tr_id ([transfer1, transfer2] ! i)) (tr_amount ([transfer1, transfer2] ! i))
           = Inr r)
     \<and> transfers_createReversal second_reversal_fails
           (?h3 @ map reversal_call (take 1 [transfer1, transfer2]))
           (tr_id ([transfer1, transfer2] ! 1)) (tr_amount ([transfer1, transfer2] ! 1))
         = Inl (StripeError ''rejected'')"
    by (simp add: second_reversal_fails_def scripted_def intent1_def transfer1_def
          transfer2_def)
  from refund_failure_paths[OF 1 2, of second_reversal_fails "[]"]
  have "\<forall>refund intent g ts k err.
            refunds_create second_reversal_fails [] ?pid = Inr refund
            \<and> paymentIntents_retrieve second_reversal_fails ([] @ [RefundsCreate ?pid]) ?pid
                = Inr intent
            \<and> pi_transfer_group intent = Some g \<and> g \<noteq> []
            \<and> transfers_list second_reversal_fails
                 ([] @ [RefundsCreate ?pid, PaymentIntentsRetrieve ?pid]) (ByGroup g) = Inr ts
            \<and> k < length ts
            \<and> (\<forall>i<k. \<exists>r.
                  transfers_createReversal second_reversal_fails
                    ([] @ [RefundsCreate ?pid, PaymentIntentsRetrieve ?pid,
                          TransfersList (ByGroup g)] @ map reversal_call (take i ts))
                    (tr_id (ts ! i)) (tr_amount (ts ! i)) = Inr r)
            \<and> transfers_createReversal second_reversal_fails
                  ([] @ [RefundsCreate ?pid, PaymentIntentsRetrieve ?pid,
                        TransfersList (ByGroup g)] @ map reversal_call (take k ts))
                  (tr_id (ts ! k)) (tr_amount (ts ! k)) = Inl err \<longrightarrow>
            refund_handler second_reversal_fails refund_request [] =
              (\<lparr>status = 500, payload = ErrorBody (message err)\<rparr>,
               [] @ [RefundsCreate ?pid, PaymentIntentsRetrieve ?pid,
                    TransfersList (ByGroup g)] @ map reversal_call (take (Suc k) ts))"
    by blast
  from this[rule_format, of refund1 intent1 ?g "[transfer1, transfer2]" 1
        "StripeError ''rejected''"] d
  have "refund_handler second_reversal_fails refund_request [] =
              (\<lparr>status = 500, payload = ErrorBody (message (StripeError ''rejected''))\<rparr>,
               [] @ [RefundsCreate ?pid, PaymentIntentsRetrieve ?pid,
                    TransfersList (ByGroup ?g)]
                  @ map reversal_call (take (Suc 1) [transfer1, transfer2]))"
    by simp
  then have second: "refund_handler second_reversal_fails refund_request [] =
       (\<lparr>status = 500, payload = ErrorBody ''rejected''\<rparr>,
        [RefundsCreate ?pid, PaymentIntentsRetrieve ?pid, TransfersList (ByGroup ?g),
         TransfersCreateReversal ''tr_1'' 9500, TransfersCreateReversal ''tr_2'' 300])"
    by (simp add: reversal_call_def transfer1_def transfer2_def)
  from first second show ?thesis by simp
qed

text \<open>
  C4. When the refund succeeds and the retrieved payment carries no settlement-group
  token (\<^verbatim>\<open>null\<close> or empty), the handler answers 200 with the refund's id and status
  and transferReversed = false, and the refund and the retrieval are the only calls it
  made: no listing and no reversal.
\<close>

theorem refund_without_group:
  assumes "lookup body ''paymentIntentId'' = pid" "truthy pid"
      and "refunds_create S h pid = Inr refund"
      and "paymentIntents_retrieve S (h @ [RefundsCreate pid]) pid = Inr intent"
      and "\<not> truthy_str (pi_transfer_group intent)"
  shows "refund_handler S body h =
           (\<lparr>status = 200,
             payload = Body \<lparr>rr_success = True,
                             refundId = re_id refund,
                             refundStatus = re_status refund,
                             transferReversed = False,
                             rr_reversal = None\<rparr>\<rparr>,
            h @ [RefundsCreate pid, PaymentIntentsRetrieve pid])"
  using refund_handler_no_group[OF assms] by (simp add: no_group_reply_def)

theorem refund_without_group_witness:
  "\<not> truthy_str (pi_transfer_group (intent1\<lparr>pi_transfer_group := None\<rparr>))
   \<and> refund_handler ungrouped refund_request [] =
       (\<lparr>status = 200,
         payload = Body \<lparr>rr_success = True,
                         refundId = ''re_1'',
                         refundStatus = Some ''succeeded'',
                         transferReversed = False,
                         rr_reversal = None\<rparr>\<rparr>,
        [RefundsCreate (JStr ''pi_1''), PaymentIntentsRetrieve (JStr ''pi_1'')])"
proof -
  have 1: "lookup refund_request ''paymentIntentId'' = JStr ''pi_1''"
    by (simp add: lookup_def refund_request_def)
  have 2: "truthy (JStr ''pi_1'')" by simp
  have 3: "refunds_create ungrouped [] (JStr ''pi_1'') = Inr refund1"
    by (simp add: ungrouped_def scripted_def)
  have 4: "paymentIntents_retrieve ungrouped ([] @ [RefundsCreate (JStr ''pi_1'')])
             (JStr ''pi_1'') = Inr (intent1\<lparr>pi_transfer_group := None\<rparr>)"
    by (simp add: ungrouped_def scripted_def)
  have 5: "\<not> truthy_str (pi_transfer_group (intent1\<lparr>pi_transfer_group := None\<rparr>))"
    by simp
  from refund_without_group[OF 1 2 3 4 5] 5 show ?thesis by (simp add: refund1_def)
qed

section \<open>Transaction history\<close>

lemma set_insert_cmp: "set (insert_cmp cmp x xs) = insert x (set xs)"
  by (induction xs) auto

lemma set_js_sort: "set (js_sort cmp xs) = set xs"
  by (induction xs) (auto simp: set_insert_cmp)

lemma length_insert_cmp: "length (insert_cmp cmp x xs) = Suc (length xs)"
  by (induction xs) auto

lemma length_js_sort: "length (js_sort cmp xs) = length xs"
  by (induction xs) (auto simp: length_insert_cmp)

lemma sorted_insert_cmp:
  assumes "sorted_wrt (\<lambda>a b. tx_created b \<le> tx_created a) xs"
  shows "sorted_wrt (\<lambda>a b. tx_created b \<le> tx_created a) (insert_cmp by_created_desc x xs)"
  using assms
  by (induction xs) (auto simp: set_insert_cmp by_created_desc_def)

lemma sorted_js_sort:
  "sorted_wrt (\<lambda>a b. tx_created b \<le> tx_created a) (js_sort by_created_desc xs)"
  by (induction xs) (auto simp: sorted_insert_cmp)

lemma refund_of_customer_match:
  assumes "refund_of_customer customerId r" "truthy customerId"
  shows "\<exists>c s. re_charge r = Some (Expanded c) \<and> ch_customer c = Some (Ref s)
                 \<and> customerId = JStr s"
proof (cases "re_charge r")
  case None
  with assms(1) show ?thesis by simp
next
  case (Some e)
  show ?thesis
  proof (cases e)
    case (Ref s)
    with Some assms show ?thesis by auto
  next
    case (Expanded c)
    with Some assms(1) have eq: "customer_eq (ch_customer c) customerId" by simp
    show ?thesis
    proof (cases "ch_customer c")
      case None
      with eq assms(2) show ?thesis by auto
    next
      case (Some cu)
      with eq \<open>re_charge r = Some e\<close> Expanded show ?thesis by (cases cu) auto
    qed
  qed
qed

lemma transactions_renter_ok:
  assumes "payload (fst (transactions_renter S body h)) = Body txs"
  shows "\<exists>charges refundsList.
           truthy (lookup body ''customerId'')
           \<and> charges_list S h (lookup body ''customerId'') 50 = Inr charges
           \<and> refunds_list S (h @ [ChargesList (lookup body ''customerId'') 50]) 50
                [''data.charge''] = Inr refundsList
           \<and> txs = js_sort by_created_desc
                     (map payment_tx charges
                      @ map refund_tx
                          (filter (refund_of_customer (lookup body ''customerId''))
                             refundsList))"
  using assms
  by (auto simp add: transactions_renter_def Let_def split: if_splits sum.splits)

lemma collect_owner_acc:
  "collect_owner ts ps rs =
     (ps @ fst (collect_owner ts [] []), rs @ snd (collect_owner ts [] []))"
proof (induction ts arbitrary: ps rs)
  case Nil
  then show ?case by simp
next
  case (Cons t ts)
  from Cons.IH[of "ps @ [payout_tx t]" "rs @ map (reverse_transfer_tx t) (revs_of t)"]
       Cons.IH[of "[payout_tx t]" "map (reverse_transfer_tx t) (revs_of t)"]
  show ?case by simp
qed

lemma transactions_owner_ok:
  assumes "payload (fst (transactions_owner S body h)) = Body txs"
  shows "\<exists>payouts reversals. txs = js_sort by_created_desc (payouts @ reversals)"
  using assms
  by (auto simp add: transactions_owner_def Let_def split: if_splits sum.splits prod.splits)

text \<open>
  Against C6 read as a strict order: two charges of the same second come back next to
  each other, so the list is not strictly descending.
\<close>

theorem transactions_renter_equal_created:
  "payload (fst (transactions_renter accepting renter_request [])) =
     Body [payment_tx charge1, payment_tx charge2]
   \<and> map tx_created [payment_tx charge1, payment_tx charge2] = [100, 100]"
  by (simp add: transactions_renter_def Let_def lookup_def renter_request_def accepting_def
        scripted_def by_created_desc_def payment_tx_def charge1_def charge2_def)

text \<open>
  C6. Every transactions list of /transactions/renter and /transactions/owner is in
  descending order of creation time, equal times allowed (each entry's time is at most
  that of every entry before it). In a renter's list, every refund entry comes from a
  listed refund whose charge is expanded and has a customer reference equal to the
  requested customerId.
\<close>

theorem transactions_sorted_and_filtered:
  "(\<forall>txs. payload (fst (transactions_renter S body h)) = Body txs \<longrightarrow>
      sorted_wrt (\<lambda>a b. tx_created b \<le> tx_created a) txs
      \<and> (\<forall>x\<in>set txs. tx_type x = ''refund'' \<longrightarrow>
            (\<exists>refundsList r c s.
               refunds_list S (h @ [ChargesList (lookup body ''customerId'') 50]) 50
                 [''data.charge''] = Inr refundsList
               \<and> r \<in> set refundsList \<and> x = refund_tx r
               \<and> re_charge r = Some (Expanded c) \<and> ch_customer c = Some (Ref s)
               \<and> lookup body ''customerId'' = JStr s)))
   \<and> (\<forall>txs. payload (fst (transactions_owner S body h)) = Body txs \<longrightarrow>
        sorted_wrt (\<lambda>a b. tx_created b \<le> tx_created a) txs)"
proof (intro conjI allI impI ballI)
  fix txs assume "payload (fst (transactions_renter S body h)) = Body txs"
  from transactions_renter_ok[OF this] show "sorted_wrt (\<lambda>a b. tx_created b \<le> tx_created a) txs"
    using sorted_js_sort by auto
next
  fix txs x
  assume p: "payload (fst (transactions_renter S body h)) = Body txs"
     and x: "x \<in> set txs" and t: "tx_type x = ''refund''"
  let ?cid = "lookup body ''customerId''"
  from transactions_renter_ok[OF p] obtain charges refundsList where
    c: "truthy ?cid"
    and l: "refunds_list S (h @ [ChargesList ?cid 50]) 50 [''data.charge''] = Inr refundsList"
    and txs: "txs = js_sort by_created_desc
                     (map payment_tx charges
                      @ map refund_tx (filter (refund_of_customer ?cid) refundsList))"
    by blast
  from x txs have "x \<in> payment_tx ` set charges
                     \<or> x \<in> refund_tx ` set (filter (refund_of_customer ?cid) refundsList)"
    by (auto simp: set_js_sort)
  moreover have "x \<notin> payment_tx ` set charges"
    using t by (auto simp: payment_tx_def)
  ultimately obtain r where r: "r \<in> set refundsList" "refund_of_customer ?cid r"
    "x = refund_tx r"
    by auto
  from refund_of_customer_match[OF r(2) c] obtain c' s where
    "re_charge r = Some (Expanded c')" "ch_customer c' = Some (Ref s)" "?cid = JStr s"
    by blast
  with l r show "\<exists>refundsList r c s.
               refunds_list S (h @ [ChargesList (lookup body ''customerId'') 50]) 50
                 [''data.charge''] = Inr refundsList
               \<and> r \<in> set refundsList \<and> x = refund_tx r
               \<and> re_charge r = Some (Expanded c) \<and> ch_customer c = Some (Ref s)
               \<and> lookup body ''customerId'' = JStr s"
    by blast
next
  fix txs assume "payload (fst (transactions_owner S body h)) = Body txs"
  from transactions_owner_ok[OF this] show "sorted_wrt (\<lambda>a b. tx_created b \<le> tx_created a) txs"
    using sorted_js_sort by auto
qed

lemma history_renter:
  "payload (fst (transactions_renter history renter_request [])) =
     Body [payment_tx charge3, refund_tx refund2, payment_tx charge1]"
  by (simp add: transactions_renter_def Let_def lookup_def renter_request_def history_def
        scripted_def by_created_desc_def payment_tx_def refund_tx_def charge1_def charge3_def
        refund1_def refund2_def refund_other_def charge_other_def)

lemma history_owner:
  "payload (fst (transactions_owner history owner_request [])) =
     Body [reverse_transfer_tx transfer3 \<lparr>rv_id = ''trr_3'', rv_amount = 3800, rv_created = 400\<rparr>,
           payout_tx transfer3, payout_tx transfer1]"
  by (simp add: transactions_owner_def Let_def lookup_def owner_request_def history_def
        scripted_def by_created_desc_def payout_tx_def reverse_transfer_tx_def revs_of_def
        transfer1_def transfer3_def)

theorem transactions_sorted_and_filtered_witness:
  "payload (fst (transactions_renter history renter_request [])) =
     Body [payment_tx charge3, refund_tx refund2, payment_tx charge1]
   \<and> map tx_created [payment_tx charge3, refund_tx refund2, payment_tx charge1]
       = [300, 200, 100]
   \<and> sorted_wrt (\<lambda>a b. tx_created b \<le> tx_created a)
       [payment_tx charge3, refund_tx refund2, payment_tx charge1]
   \<and> payload (fst (transactions_owner history owner_request [])) =
       Body [reverse_transfer_tx transfer3
               \<lparr>rv_id = ''trr_3'', rv_amount = 3800, rv_created = 400\<rparr>,
             payout_tx transfer3, payout_tx transfer1]
   \<and> sorted_wrt (\<lambda>a b. tx_created b \<le> tx_created a)
       [reverse_transfer_tx transfer3 \<lparr>rv_id = ''trr_3'', rv_amount = 3800, rv_created = 400\<rparr>,
        payout_tx transfer3, payout_tx transfer1]"
proof -
  from transactions_sorted_and_filtered[of history renter_request "[]"] history_renter
  have 1: "sorted_wrt (\<lambda>a b. tx_created b \<le> tx_created a)
       [payment_tx charge3, refund_tx refund2, payment_tx charge1]"
    by blast
  from transactions_sorted_and_filtered[of history owner_request "[]"] history_owner
  have 2: "sorted_wrt (\<lambda>a b. tx_created b \<le> tx_created a)
       [reverse_transfer_tx transfer3 \<lparr>rv_id = ''trr_3'', rv_amount = 3800, rv_created = 400\<rparr>,
        payout_tx transfer3, payout_tx transfer1]"
    by blast
  have 3: "map tx_created [payment_tx charge3, refund_tx refund2, payment_tx charge1]
       = [300, 200, 100]"
    by (simp add: payment_tx_def refund_tx_def charge1_def charge3_def refund2_def)
  from 1 2 3 history_renter history_owner show ?thesis by blast
qed

section \<open>Account deletion\<close>

text \<open>
  C9. When customerId or connectAccountId is supplied (truthy), the handler answers 200
  with success = true whatever the platform answers to the deletions. Each supplied id
  is deleted by one call, the customer first, and the details record for each of the two
  whether that very call succeeded: a failed deletion shows only as \<open>false\<close> there.
  When customerId is absent the details have no customerDeleted key and no customer
  call is made; when connectAccountId is absent, details.connectAccountDeleted is
  \<open>true\<close> and no account call is made.
\<close>

theorem delete_accounts_always_success:
  assumes "truthy (lookup body ''customerId'') \<or> truthy (lookup body ''connectAccountId'')"
  shows "delete_accounts S body h =
          (\<lparr>status = 200,
            payload = Body \<lparr>dr_success = True,
                            dr_message = ''Deletion attempted.'',
                            dr_details = Some
                              \<lparr>customerDeleted =
                                 (if truthy (lookup body ''customerId'')
                                  then Some (\<not> isl (customers_del S h
                                                        (lookup body ''customerId'')))
                                  else None),
                               connectAccountDeleted =
                                 (if truthy (lookup body ''connectAccountId'')
                                  then Some (\<not> isl (accounts_del S
                                         (h @ (if truthy (lookup body ''customerId'')
                                               then [CustomersDel (lookup body ''customerId'')]
                                               else []))
                                         (lookup body ''connectAccountId'')))
                                  else Some True)\<rparr>\<rparr>\<rparr>,
           h @ (if truthy (lookup body ''customerId'')
                then [CustomersDel (lookup body ''customerId'')] else [])
             @ (if truthy (lookup body ''connectAccountId'')
                then [AccountsDel (lookup body ''connectAccountId'')] else []))"
  using assms
  by (auto simp add: delete_accounts_def Let_def split: sum.splits)

theorem delete_accounts_always_success_witness:
  "customers_del rejecting [] (JStr ''cus_1'') = Inl (StripeError ''rejected'')
   \<and> accounts_del rejecting [CustomersDel (JStr ''cus_1'')] (JStr ''acct_1'') =
       Inl (StripeError ''rejected'')
   \<and> delete_accounts rejecting delete_both_request [] =
       (\<lparr>status = 200,
         payload = Body \<lparr>dr_success = True, dr_message = ''Deletion attempted.'',
                         dr_details = Some \<lparr>customerDeleted = Some False,
                                             connectAccountDeleted = Some False\<rparr>\<rparr>\<rparr>,
        [CustomersDel (JStr ''cus_1''), AccountsDel (JStr ''acct_1'')])
   \<and> delete_accounts rejecting delete_customer_request [] =
       (\<lparr>status = 200,
         payload = Body \<lparr>dr_success = True, dr_message = ''Deletion attempted.'',
                         dr_details = Some \<lparr>customerDeleted = Some False,
                                             connectAccountDeleted = Some True\<rparr>\<rparr>\<rparr>,
        [CustomersDel (JStr ''cus_1'')])"
proof -
  have c: "lookup delete_both_request ''customerId'' = JStr ''cus_1''"
          "lookup delete_both_request ''connectAccountId'' = JStr ''acct_1''"
          "lookup delete_customer_request ''customerId'' = JStr ''cus_1''"
          "lookup delete_customer_request ''connectAccountId'' = JUndefined"
    by (simp_all add: lookup_def delete_both_request_def delete_customer_request_def)
  have r: "customers_del rejecting [] (JStr ''cus_1'') = Inl (StripeError ''rejected'')"
          "accounts_del rejecting [CustomersDel (JStr ''cus_1'')] (JStr ''acct_1'') =
             Inl (StripeError ''rejected'')"
    by (simp_all add: rejecting_def scripted_def)
  have t: "truthy (lookup delete_both_request ''customerId'')"
          "truthy (lookup delete_customer_request ''customerId'')"
    by (simp_all add: c)
  from delete_accounts_always_success[OF disjI1, OF t(1), of rejecting "[]"]
  have 1: "delete_accounts rejecting delete_both_request [] =
       (\<lparr>status = 200,
         payload = Body \<lparr>dr_success = True, dr_message = ''Deletion attempted.'',
                         dr_details = Some \<lparr>customerDeleted = Some False,
                                             connectAccountDeleted = Some False\<rparr>\<rparr>\<rparr>,
        [CustomersDel (JStr ''cus_1''), AccountsDel (JStr ''acct_1'')])"
    by (simp add: c r)
  from delete_accounts_always_success[OF disjI1, OF t(2), of rejecting "[]"]
  have 2: "delete_accounts rejecting delete_customer_request [] =
       (\<lparr>status = 200,
         payload = Body \<lparr>dr_success = True, dr_message = ''Deletion attempted.'',
                         dr_details = Some \<lparr>customerDeleted = Some False,
                                             connectAccountDeleted = Some True\<rparr>\<rparr>\<rparr>,
        [CustomersDel (JStr ''cus_1'')])"
    by (simp add: c r)
  from r 1 2 show ?thesis by blast
qed

section \<open>Configuration\<close>

text \<open>
  C10. GET /config answers 200 with publishableKey equal to whatever the environment
  holds under STRIPE_PUBLISHABLE_KEY. The startup check reads the secret key only: it
  gives the same result whatever the publishable key is, so a process with a secret key
  and no publishable key starts and serves the endpoint with an undefined key.
\<close>

theorem config_returns_environment_key:
  "get_config env =
     \<lparr>status = 200, payload = Body \<lparr>publishableKey = env ''STRIPE_PUBLISHABLE_KEY''\<rparr>\<rparr>
   \<and> startup_check (env(''STRIPE_PUBLISHABLE_KEY'' := k)) = startup_check env
   \<and> (startup_check env = Listening) = truthy_str (env ''STRIPE_SECRET_KEY'')
   \<and> (truthy_str (env ''STRIPE_SECRET_KEY'') \<longrightarrow>
        serve_config (env(''STRIPE_PUBLISHABLE_KEY'' := None)) =
          Some \<lparr>status = 200, payload = Body \<lparr>publishableKey = None\<rparr>\<rparr>)"
  by (simp add: get_config_def startup_check_def serve_config_def)

theorem config_returns_environment_key_witness:
  "truthy_str (running_env ''STRIPE_SECRET_KEY'')
   \<and> running_env ''STRIPE_PUBLISHABLE_KEY'' = None
   \<and> serve_config running_env =
        Some \<lparr>status = 200, payload = Body \<lparr>publishableKey = None\<rparr>\<rparr>"
proof -
  have s: "truthy_str (running_env ''STRIPE_SECRET_KEY'')"
    and p: "running_env ''STRIPE_PUBLISHABLE_KEY'' = None"
    by (simp_all add: running_env_def)
  from p have e: "running_env(''STRIPE_PUBLISHABLE_KEY'' := None) = running_env"
    by (simp add: fun_upd_idem)
  from config_returns_environment_key[of running_env] s e
  have "serve_config running_env =
        Some \<lparr>status = 200, payload = Body \<lparr>publishableKey = None\<rparr>\<rparr>"
    by simp
  with s p show ?thesis by blast
qed

end
